theory Spec2Isabelle
  imports Complex_Main
begin

section \<open>The subscription state store\<close>

text \<open>
  The table \<open>user_subscriptions\<close> as the webhook handler
  (\<open>supabase/functions/stripe-webhook-handler/index.ts\<close>) and the client service
  (\<open>src/services/stripe/subscription.service.ts\<close>) read and write it. A column that
  can hold SQL NULL is an \<open>option\<close>. Timestamps are integers, milliseconds since the
  epoch: \<open>new Date(x).toISOString()\<close> is an injective rendering of such a number, and no
  code path modelled here parses the string back.
\<close>

datatype SubscriptionTier = Free | Premium

text \<open>The status strings of a Stripe subscription; the handler copies them into the row.\<close>

datatype SubscriptionStatus =
  Active | Trialing | Past_due | Canceled | Incomplete | Incomplete_expired | Unpaid | Paused

record subscription_row =
  row_id :: string
  user_id :: string
  stripe_customer_id :: "string option"
  stripe_subscription_id :: "string option"
  tier :: SubscriptionTier
  status :: SubscriptionStatus
  trial_end_at :: "int option"
  current_period_start :: "int option"
  current_period_end :: "int option"
  canceled_at :: "int option"
  created_at :: int
  updated_at :: int

record analytics_row =
  analytics_user_id :: string
  analytics_updated_at :: int

record database =
  user_subscriptions :: "subscription_row list"
  user_analytics :: "analytics_row list"

text \<open>
  What the code cannot control is an input of the model: the clock read by
  \<open>new Date()\<close> (one instant for each handler call) and whether a database call fails.
  A failing call either resolves with an \<open>error\<close> object carrying a code, or rejects
  (the client throws). A failed statement changes no row.
\<close>

datatype db_fault = Returns_error string | Rejects

record env =
  now :: int
  select_fault :: "db_fault option"
  update_fault :: "db_fault option"
  upsert_fault :: "db_fault option"

text \<open>\<open>.update(data).eq(column, v)\<close>: every row whose column equals \<open>v\<close> gets the new
  fields; a NULL column equals nothing.\<close>

definition update_where ::
  "(subscription_row \<Rightarrow> bool) \<Rightarrow> (subscription_row \<Rightarrow> subscription_row) \<Rightarrow>
   subscription_row list \<Rightarrow> subscription_row list" where
  "update_where p f rows = map (\<lambda>r. if p r then f r else r) rows"

text \<open>\<open>.select(...).eq(column, v).single()\<close>: exactly one matching row, or the error
  \<open>PGRST116\<close>. \<open>Thrown\<close> stands for a rejected call.\<close>

datatype 'a query_result = Data 'a | Error string | Thrown

definition select_single ::
  "db_fault option \<Rightarrow> (subscription_row \<Rightarrow> bool) \<Rightarrow> subscription_row list \<Rightarrow>
   subscription_row query_result" where
  "select_single fault p rows =
     (case fault of
        Some (Returns_error c) \<Rightarrow> Error c
      | Some Rejects \<Rightarrow> Thrown
      | None \<Rightarrow> (case filter p rows of [r] \<Rightarrow> Data r | _ \<Rightarrow> Error ''PGRST116''))"

section \<open>The webhook consumer\<close>

text \<open>
  \<open>subscription.customer\<close> and \<open>invoice.subscription\<close> are either an identifier or an
  expanded object with an \<open>id\<close>.
\<close>

datatype expandable = Id_string string | Expanded string

fun expandable_id :: "expandable \<Rightarrow> string" where
  "expandable_id (Id_string s) = s"
| "expandable_id (Expanded s) = s"

record stripe_subscription =
  sub_id :: string
  sub_customer :: expandable
  sub_status :: SubscriptionStatus
  sub_trial_end :: "int option"
  sub_current_period_start :: int
  sub_current_period_end :: int
  sub_cancel_at_period_end :: bool
  sub_canceled_at :: "int option"

record stripe_invoice =
  invoice_subscription :: "expandable option"

datatype event_payload =
  Customer_subscription_created stripe_subscription
| Customer_subscription_updated stripe_subscription
| Customer_subscription_deleted stripe_subscription
| Invoice_payment_failed stripe_invoice
| Unhandled string

text \<open>A verified event: its identifier, its own timestamp (\<open>event.created\<close>, seconds)
  and the object selected by \<open>event.type\<close>.\<close>

record stripe_event =
  event_id :: string
  event_created :: int
  payload :: event_payload

datatype handler_error = User_not_found string | Db_error db_fault | Range_error

text \<open>
  \<open>new Date(ms).toISOString()\<close>: a time value beyond 8.64e15 milliseconds on either
  side of the epoch is an invalid date, and \<open>toISOString\<close> throws \<open>RangeError\<close> for
  it. (The products \<open>x * 1000\<close> below are exact in JavaScript wherever they are in
  range, the range lying under \<open>2^53\<close>.)
\<close>

definition max_time_value :: int where
  "max_time_value = 8640000000000000"

definition to_iso_string :: "int \<Rightarrow> handler_error + int" where
  "to_iso_string ms =
     (if - max_time_value \<le> ms \<and> ms \<le> max_time_value then Inr ms else Inl Range_error)"

text \<open>\<open>x ? new Date(x * 1000).toISOString() : null\<close>: null and 0 are both falsy.\<close>

definition seconds_to_timestamp :: "int option \<Rightarrow> handler_error + int option" where
  "seconds_to_timestamp x =
     (case x of
        None \<Rightarrow> Inr None
      | Some t \<Rightarrow>
          if t = 0 then Inr None
          else (case to_iso_string (t * 1000) of
                  Inl err \<Rightarrow> Inl err
                | Inr text_of_date \<Rightarrow> Inr (Some text_of_date)))"

text \<open>\<open>.upsert({user_id, updated_at}, {onConflict: 'user_id', ignoreDuplicates: true})\<close>\<close>

definition upsert_analytics :: "string \<Rightarrow> int \<Rightarrow> analytics_row list \<Rightarrow> analytics_row list" where
  "upsert_analytics uid t rows =
     (if \<exists>a \<in> set rows. analytics_user_id a = uid then rows
      else rows @ [\<lparr>analytics_user_id = uid, analytics_updated_at = t\<rparr>])"

text \<open>
  The four handlers. Each returns the error it throws, if any, and the database as the
  call leaves it. The object passed to \<open>.update\<close> is built before the request is sent,
  so a \<open>RangeError\<close> of a date conversion comes before the update and leaves the rows as
  they were.
\<close>

definition handleSubscriptionCreated ::
  "env \<Rightarrow> stripe_subscription \<Rightarrow> database \<Rightarrow> handler_error option \<times> database" where
  "handleSubscriptionCreated e subscription db =
     (let customerId = expandable_id (sub_customer subscription) in
      case select_single (select_fault e) (\<lambda>r. stripe_customer_id r = Some customerId)
             (user_subscriptions db) of
        Thrown \<Rightarrow> (Some (Db_error Rejects), db)
      | Error c \<Rightarrow> (Some (User_not_found customerId), db)
      | Data existingSubscription \<Rightarrow>
          (let userId = user_id existingSubscription in
           case seconds_to_timestamp (sub_trial_end subscription) of
             Inl err \<Rightarrow> (Some err, db)
           | Inr trial_end_iso \<Rightarrow>
           case to_iso_string (sub_current_period_start subscription * 1000) of
             Inl err \<Rightarrow> (Some err, db)
           | Inr period_start_iso \<Rightarrow>
           case to_iso_string (sub_current_period_end subscription * 1000) of
             Inl err \<Rightarrow> (Some err, db)
           | Inr period_end_iso \<Rightarrow>
           case update_fault e of
             Some f \<Rightarrow> (Some (Db_error f), db)
           | None \<Rightarrow>
               (let db1 = db\<lparr>user_subscriptions :=
                      update_where (\<lambda>r. stripe_customer_id r = Some customerId)
                        (\<lambda>r. r\<lparr>stripe_subscription_id := Some (sub_id subscription),
                                tier := Premium,
                                status := sub_status subscription,
                                trial_end_at := trial_end_iso,
                                current_period_start := Some period_start_iso,
                                current_period_end := Some period_end_iso,
                                updated_at := now e\<rparr>)
                        (user_subscriptions db)\<rparr>
                in case upsert_fault e of
                     Some Rejects \<Rightarrow> (Some (Db_error Rejects), db1)
                   | Some (Returns_error c) \<Rightarrow> (None, db1)
                   | None \<Rightarrow>
                       (None, db1\<lparr>user_analytics :=
                                upsert_analytics userId (now e) (user_analytics db1)\<rparr>))))"

definition handleSubscriptionUpdated ::
  "env \<Rightarrow> stripe_subscription \<Rightarrow> database \<Rightarrow> handler_error option \<times> database" where
  "handleSubscriptionUpdated e subscription db =
     (let shouldDowngrade =
            (sub_status subscription = Canceled \<and> \<not> sub_cancel_at_period_end subscription)
      in case seconds_to_timestamp (sub_canceled_at subscription) of
           Inl err \<Rightarrow> (Some err, db)
         | Inr canceled_at_iso \<Rightarrow>
             (let updateData = (\<lambda>r. r\<lparr>status := sub_status subscription,
                                        canceled_at := canceled_at_iso,
                                        updated_at := now e\<rparr>);
                  updateData' = (if shouldDowngrade then (\<lambda>r. (updateData r)\<lparr>tier := Free\<rparr>)
                                 else updateData)
              in case update_fault e of
                   Some f \<Rightarrow> (Some (Db_error f), db)
                 | None \<Rightarrow>
                     (None, db\<lparr>user_subscriptions :=
                              update_where
                                (\<lambda>r. stripe_subscription_id r = Some (sub_id subscription))
                                updateData' (user_subscriptions db)\<rparr>)))"

definition handleSubscriptionDeleted ::
  "env \<Rightarrow> stripe_subscription \<Rightarrow> database \<Rightarrow> handler_error option \<times> database" where
  "handleSubscriptionDeleted e subscription db =
     (case update_fault e of
        Some f \<Rightarrow> (Some (Db_error f), db)
      | None \<Rightarrow>
          (None, db\<lparr>user_subscriptions :=
                   update_where (\<lambda>r. stripe_subscription_id r = Some (sub_id subscription))
                     (\<lambda>r. r\<lparr>tier := Free,
                             status := Canceled,
                             canceled_at := Some (now e),
                             updated_at := now e\<rparr>)
                     (user_subscriptions db)\<rparr>))"

definition handlePaymentFailed ::
  "env \<Rightarrow> stripe_invoice \<Rightarrow> database \<Rightarrow> handler_error option \<times> database" where
  "handlePaymentFailed e invoice db =
     (let subscriptionId = map_option expandable_id (invoice_subscription invoice) in
      if subscriptionId = None \<or> subscriptionId = Some [] then (None, db)
      else case update_fault e of
             Some f \<Rightarrow> (Some (Db_error f), db)
           | None \<Rightarrow>
               (None, db\<lparr>user_subscriptions :=
                        update_where (\<lambda>r. stripe_subscription_id r = subscriptionId)
                          (\<lambda>r. r\<lparr>status := Past_due, updated_at := now e\<rparr>)
                          (user_subscriptions db)\<rparr>))"

text \<open>The \<open>switch (event.type)\<close> of the main handler.\<close>

fun handle_event ::
  "env \<Rightarrow> event_payload \<Rightarrow> database \<Rightarrow> handler_error option \<times> database" where
  "handle_event e (Customer_subscription_created s) db = handleSubscriptionCreated e s db"
| "handle_event e (Customer_subscription_updated s) db = handleSubscriptionUpdated e s db"
| "handle_event e (Customer_subscription_deleted s) db = handleSubscriptionDeleted e s db"
| "handle_event e (Invoice_payment_failed i) db = handlePaymentFailed e i db"
| "handle_event e (Unhandled t) db = (None, db)"

text \<open>The inner \<open>try\<close>/\<open>catch\<close> around the switch: an error thrown by a handler is
  logged and swallowed; what the handler wrote before it stays written.\<close>

definition process_event :: "env \<Rightarrow> stripe_event \<Rightarrow> database \<Rightarrow> database" where
  "process_event e event db = snd (handle_event e (payload event) db)"

text \<open>
  The request as the handler reads it: the method, the body text and the
  \<open>stripe-signature\<close> header. \<open>stripe.webhooks.constructEvent\<close> with the configured
  secret is the parameter \<open>constructEvent\<close>; \<open>None\<close> is its exception.
  Nothing between the outer \<open>try\<close> and the inner one throws once the body text has been
  read, so the status 500 of the outer \<open>catch\<close> has no branch here. Of the JSON body of
  a response the model keeps the message text.
\<close>

record request =
  req_method :: string
  req_body :: string
  stripe_signature_header :: "string option"

record response =
  resp_status :: nat
  resp_body :: string

definition verifyWebhookSignature ::
  "(string \<Rightarrow> string \<Rightarrow> stripe_event option) \<Rightarrow> string \<Rightarrow> string \<Rightarrow> stripe_event option" where
  "verifyWebhookSignature constructEvent body signature = constructEvent body signature"

definition serve ::
  "(string \<Rightarrow> string \<Rightarrow> stripe_event option) \<Rightarrow> env \<Rightarrow> request \<Rightarrow> database \<Rightarrow>
   response \<times> database" where
  "serve constructEvent e req db =
     (if req_method req \<noteq> ''POST''
      then (\<lparr>resp_status = 405, resp_body = ''Method not allowed''\<rparr>, db)
      else case stripe_signature_header req of
             None \<Rightarrow> (\<lparr>resp_status = 400, resp_body = ''Missing stripe-signature header''\<rparr>, db)
           | Some signature \<Rightarrow>
               if signature = []
               then (\<lparr>resp_status = 400, resp_body = ''Missing stripe-signature header''\<rparr>, db)
               else (case verifyWebhookSignature constructEvent (req_body req) signature of
                       None \<Rightarrow> (\<lparr>resp_status = 400, resp_body = ''Invalid signature''\<rparr>, db)
                     | Some event \<Rightarrow>
                         (\<lparr>resp_status = 200, resp_body = ''received''\<rparr>,
                          process_event e event db)))"

section \<open>The client subscription service\<close>

text \<open>A \<open>ServiceError\<close> is identified by its code; the message is display text.\<close>

datatype ServiceError = ServiceError string

text \<open>
  \<open>getSubscription\<close> reads one row by \<open>user_id\<close> and writes nothing. The error code
  \<open>PGRST116\<close> (no row) is answered with \<open>null\<close>; any other error object becomes
  \<open>SUBSCRIPTION_FETCH_FAILED\<close>; an exception of the client becomes
  \<open>SUBSCRIPTION_FETCH_ERROR\<close>. The object it builds copies the row field by field.
\<close>

definition getSubscription ::
  "env \<Rightarrow> database \<Rightarrow> string \<Rightarrow> ServiceError + subscription_row option" where
  "getSubscription e db userId =
     (case select_single (select_fault e) (\<lambda>r. user_id r = userId) (user_subscriptions db) of
        Thrown \<Rightarrow> Inl (ServiceError ''SUBSCRIPTION_FETCH_ERROR'')
      | Error c \<Rightarrow>
          if c = ''PGRST116'' then Inr None
          else Inl (ServiceError ''SUBSCRIPTION_FETCH_FAILED'')
      | Data d \<Rightarrow> Inr (Some d))"

definition hasPremiumAccess :: "env \<Rightarrow> database \<Rightarrow> string \<Rightarrow> bool" where
  "hasPremiumAccess e db userId =
     (case getSubscription e db userId of
        Inl err \<Rightarrow> False
      | Inr None \<Rightarrow> False
      | Inr (Some subscription) \<Rightarrow>
          tier subscription = Premium \<and>
          (status subscription = Active \<or> status subscription = Trialing))"

text \<open>
  \<open>refreshSubscriptionStatus\<close> polls. Between two lookups the store may change (the
  webhook may arrive), so the world the \<open>k\<close>-th lookup sees is \<open>world k\<close>. The trace
  records what the call spent: the lookups made and the delays slept, in order.
\<close>

definition maxAttempts :: nat where
  "maxAttempts = 3"

definition delays :: "nat list" where
  "delays = [1000, 2000, 3000]"

record poll_trace =
  lookups_made :: nat
  waited :: "nat list"

text \<open>The \<open>k\<close>-th call of \<open>this.getSubscription(userId)\<close> made by one refresh.\<close>

definition lookup_at ::
  "(nat \<Rightarrow> env \<times> database) \<Rightarrow> string \<Rightarrow> nat \<Rightarrow> ServiceError + subscription_row option" where
  "lookup_at world userId k = getSubscription (fst (world k)) (snd (world k)) userId"

text \<open>\<open>delays[attempt - 1]\<close>; outside the array JavaScript reads \<open>undefined\<close>, and
  \<open>setTimeout\<close> then waits 0.\<close>

definition delay_before :: "nat \<Rightarrow> nat" where
  "delay_before attempt =
     (if attempt - 1 < length delays then delays ! (attempt - 1) else 0)"

text \<open>The body of the \<open>for\<close> loop, over the attempts still to run. \<open>Inr None\<close> is the
  loop running out; \<open>Inr (Some s)\<close> is its early \<open>return\<close>; \<open>Inl\<close> is a lookup that
  threw.\<close>

fun poll_loop ::
  "(nat \<Rightarrow> env \<times> database) \<Rightarrow> string \<Rightarrow> nat list \<Rightarrow> poll_trace \<Rightarrow>
   (ServiceError + subscription_row option) \<times> poll_trace" where
  "poll_loop world userId [] tr = (Inr None, tr)"
| "poll_loop world userId (attempt # rest) tr =
     (let tr1 = (if attempt > 0
                 then tr\<lparr>waited := waited tr @ [delay_before attempt]\<rparr>
                 else tr);
          tr2 = tr1\<lparr>lookups_made := Suc (lookups_made tr1)\<rparr>
      in case lookup_at world userId (lookups_made tr1) of
           Inl err \<Rightarrow> (Inl err, tr2)
         | Inr None \<Rightarrow> poll_loop world userId rest tr2
         | Inr (Some subscription) \<Rightarrow>
             if tier subscription = Premium then (Inr (Some subscription), tr2)
             else poll_loop world userId rest tr2)"

definition refreshSubscriptionStatus ::
  "(nat \<Rightarrow> env \<times> database) \<Rightarrow> string \<Rightarrow> (ServiceError + subscription_row) \<times> poll_trace" where
  "refreshSubscriptionStatus world userId =
     (case poll_loop world userId [0..<maxAttempts] \<lparr>lookups_made = 0, waited = []\<rparr> of
        (Inl err, tr) \<Rightarrow> (Inl err, tr)
      | (Inr (Some subscription), tr) \<Rightarrow> (Inr subscription, tr)
      | (Inr None, tr) \<Rightarrow>
          (let tr' = tr\<lparr>lookups_made := Suc (lookups_made tr)\<rparr>
           in case lookup_at world userId (lookups_made tr) of
                Inl err \<Rightarrow> (Inl err, tr')
              | Inr None \<Rightarrow> (Inl (ServiceError ''SUBSCRIPTION_NOT_FOUND''), tr')
              | Inr (Some finalSubscription) \<Rightarrow> (Inr finalSubscription, tr')))"

section \<open>The quota ledger: \<open>check_exam_eligibility\<close>\<close>











section \<open>The scoring engine\<close>

text \<open>
  Modelled from the spec: the repository holds no scoring function (only the result
  tables and their \<open>CHECK (... BETWEEN 0 AND 100)\<close> constraints), so the engine below
  follows section 4.5 of the specification. Scores are rational numbers.
\<close>

datatype exam_section = Verbal | Quantitative

record item =
  item_id :: string
  item_section :: exam_section
  item_category :: string
  correct_answer :: string

text \<open>Modelled from the spec: an item is correct when the submitted answer for it is
  its correct-answer key.\<close>

definition is_correct :: "(string \<Rightarrow> string option) \<Rightarrow> item \<Rightarrow> bool" where
  "is_correct answers i = (answers (item_id i) = Some (correct_answer i))"

text \<open>Modelled from the spec: rounding to two decimals.\<close>

definition round2 :: "rat \<Rightarrow> rat" where
  "round2 x = of_int (round (x * 100)) / 100"

text \<open>Modelled from the spec: (correct / total) \<times> 100, rounded to two decimals; with no
  item the score is undefined, not zero.\<close>

definition percentage :: "nat \<Rightarrow> nat \<Rightarrow> rat option" where
  "percentage n_correct n_total =
     (if n_total = 0 then None
      else Some (round2 (rat_of_nat n_correct / rat_of_nat n_total * 100)))"

text \<open>Modelled from the spec: the score over the items a predicate selects.\<close>

definition score_of :: "(item \<Rightarrow> bool) \<Rightarrow> item list \<Rightarrow> (string \<Rightarrow> string option) \<Rightarrow> rat option" where
  "score_of sel items answers =
     percentage (length (filter (is_correct answers) (filter sel items)))
                (length (filter sel items))"

text \<open>Modelled from the spec: the per-section percentage.\<close>

definition section_score :: "item list \<Rightarrow> (string \<Rightarrow> string option) \<Rightarrow> exam_section \<Rightarrow> rat option" where
  "section_score items answers sec = score_of (\<lambda>i. item_section i = sec) items answers"

text \<open>Modelled from the spec: the per-category score.\<close>

definition category_score :: "item list \<Rightarrow> (string \<Rightarrow> string option) \<Rightarrow> string \<Rightarrow> rat option" where
  "category_score items answers cat = score_of (\<lambda>i. item_category i = cat) items answers"

text \<open>Modelled from the spec: the overall average of an exam, the arithmetic mean of its
  two section percentages.\<close>

definition exam_overall_average :: "item list \<Rightarrow> (string \<Rightarrow> string option) \<Rightarrow> rat option" where
  "exam_overall_average items answers =
     (case (section_score items answers Verbal, section_score items answers Quantitative) of
        (Some v, Some q) \<Rightarrow> Some ((v + q) / 2)
      | _ \<Rightarrow> None)"

text \<open>Modelled from the spec: the overall score of a practice session, its single
  aggregate.\<close>

definition practice_overall_score :: "item list \<Rightarrow> (string \<Rightarrow> string option) \<Rightarrow> rat option" where
  "practice_overall_score items answers = score_of (\<lambda>i. True) items answers"

section \<open>Concrete inputs\<close>

text \<open>A clock reading with every database call succeeding; a user's row before and after
  an upgrade; the Stripe subscription \<open>sub_1\<close> of customer \<open>cus_1\<close>.\<close>

definition env_at :: "int \<Rightarrow> env" where
  "env_at t = \<lparr>now = t, select_fault = None, update_fault = None, upsert_fault = None\<rparr>"

definition free_row :: subscription_row where
  "free_row = \<lparr>row_id = ''row_1'', user_id = ''u1'', stripe_customer_id = Some ''cus_1'',
     stripe_subscription_id = None, tier = Free, status = Active, trial_end_at = None,
     current_period_start = None, current_period_end = None, canceled_at = None,
     created_at = 0, updated_at = 0\<rparr>"

definition premium_row :: subscription_row where
  "premium_row = free_row\<lparr>stripe_subscription_id := Some ''sub_1'', tier := Premium\<rparr>"

definition sub_1 :: stripe_subscription where
  "sub_1 = \<lparr>sub_id = ''sub_1'', sub_customer = Id_string ''cus_1'', sub_status = Trialing,
     sub_trial_end = Some 700, sub_current_period_start = 100, sub_current_period_end = 800,
     sub_cancel_at_period_end = False, sub_canceled_at = None\<rparr>"

definition db_of :: "subscription_row list \<Rightarrow> database" where
  "db_of rows = \<lparr>user_subscriptions = rows, user_analytics = []\<rparr>"

text \<open>A lookup that lets the polling go on: no error, and no premium tier read.\<close>

definition not_yet_premium :: "ServiceError + subscription_row option \<Rightarrow> bool" where
  "not_yet_premium x =
     (case x of Inl err \<Rightarrow> False | Inr None \<Rightarrow> True | Inr (Some s) \<Rightarrow> tier s \<noteq> Premium)"

text \<open>The delays slept before the given attempts.\<close>

definition slept :: "nat list \<Rightarrow> nat list" where
  "slept attempts = map delay_before (filter (\<lambda>a. a > 0) attempts)"

text \<open>A world in which the store holds the given rows at the given lookups and the first
  rows otherwise, every call succeeding.\<close>

definition world_of :: "subscription_row list \<Rightarrow> (nat \<Rightarrow> subscription_row list) \<Rightarrow> nat \<Rightarrow> env \<times> database" where
  "world_of rows change k = (env_at (int k), db_of (if k = 0 then rows else change k))"

text \<open>Events for \<open>sub_1\<close>: the creation, sent at second 1700000200; an update and an
  immediate cancellation sent earlier, at second 1700000100; the deletion.\<close>

definition created_event :: stripe_event where
  "created_event = \<lparr>event_id = ''evt_2'', event_created = 1700000200,
     payload = Customer_subscription_created sub_1\<rparr>"

definition older_updated_event :: stripe_event where
  "older_updated_event = \<lparr>event_id = ''evt_1'', event_created = 1700000100,
     payload = Customer_subscription_updated (sub_1\<lparr>sub_status := Incomplete\<rparr>)\<rparr>"

definition older_canceled_event :: stripe_event where
  "older_canceled_event = \<lparr>event_id = ''evt_0'', event_created = 1700000100,
     payload = Customer_subscription_updated
       (sub_1\<lparr>sub_status := Canceled, sub_canceled_at := Some 1700000100\<rparr>)\<rparr>"

definition deleted_event :: stripe_event where
  "deleted_event = \<lparr>event_id = ''evt_3'', event_created = 1700000500,
     payload = Customer_subscription_deleted sub_1\<rparr>"

text \<open>A signature check that accepts the signature \<open>good\<close> and reads the given event.\<close>

definition accept_good :: "stripe_event \<Rightarrow> string \<Rightarrow> string \<Rightarrow> stripe_event option" where
  "accept_good event body signature = (if signature = ''good'' then Some event else None)"

definition post_request :: "string option \<Rightarrow> request" where
  "post_request signature =
     \<lparr>req_method = ''POST'', req_body = ''{}'', stripe_signature_header = signature\<rparr>"

text \<open>
  The invariant of a subscription record as the specification and the validation rules
  of \<open>specs/main/data-model.md\<close> word it: a free record has no Stripe subscription
  reference; a premium record has both Stripe references.
\<close>

definition record_invariant :: "subscription_row \<Rightarrow> bool" where
  "record_invariant r =
     (if tier r = Free then stripe_subscription_id r = None
      else stripe_customer_id r \<noteq> None \<and> stripe_subscription_id r \<noteq> None)"




text \<open>A session of four items and the answers submitted for it: \<open>i1\<close> and \<open>i2\<close>
  answered with their keys, \<open>i3\<close> answered wrongly, \<open>i4\<close> left unanswered.\<close>

definition example_items :: "item list" where
  "example_items =
     [\<lparr>item_id = ''i1'', item_section = Verbal, item_category = ''analogy'',
        correct_answer = ''A''\<rparr>,
      \<lparr>item_id = ''i2'', item_section = Quantitative, item_category = ''algebra'',
        correct_answer = ''A''\<rparr>,
      \<lparr>item_id = ''i3'', item_section = Quantitative, item_category = ''algebra'',
        correct_answer = ''C''\<rparr>,
      \<lparr>item_id = ''i4'', item_section = Quantitative, item_category = ''geometry'',
        correct_answer = ''D''\<rparr>]"

definition example_answers :: "string \<Rightarrow> string option" where
  "example_answers = map_of [(''i1'', ''A''), (''i2'', ''A''), (''i3'', ''B'')]"

text \<open>A failed payment of \<open>sub_1\<close>, sent at second 1700000100; the record of \<open>u1\<close> as
  a deletion leaves it.\<close>

definition payment_failed_event :: stripe_event where
  "payment_failed_event = \<lparr>event_id = ''evt_4'', event_created = 1700000100,
     payload = Invoice_payment_failed \<lparr>invoice_subscription = Some (Id_string ''sub_1'')\<rparr>\<rparr>"

definition deleted_row :: subscription_row where
  "deleted_row = premium_row\<lparr>tier := Free, status := Canceled,
     canceled_at := Some 1700000600000, updated_at := 1700000600000\<rparr>"

text \<open>The date conversions of a handler succeed: no \<open>RangeError\<close>.\<close>

definition created_dates_valid :: "stripe_subscription \<Rightarrow> bool" where
  "created_dates_valid s =
     (\<not> isl (seconds_to_timestamp (sub_trial_end s)) \<and>
      \<not> isl (to_iso_string (sub_current_period_start s * 1000)) \<and>
      \<not> isl (to_iso_string (sub_current_period_end s * 1000)))"

definition updated_dates_valid :: "stripe_subscription \<Rightarrow> bool" where
  "updated_dates_valid s = (\<not> isl (seconds_to_timestamp (sub_canceled_at s)))"

text \<open>The store with the last-updated time of every record replaced.\<close>

definition with_last_updated :: "(subscription_row \<Rightarrow> int) \<Rightarrow> database \<Rightarrow> database" where
  "with_last_updated u db =
     db\<lparr>user_subscriptions := map (\<lambda>r. r\<lparr>updated_at := u r\<rparr>) (user_subscriptions db)\<rparr>"

section \<open>Properties of the client subscription service\<close>

lemma getSubscription_cases:
  "getSubscription e db uid =
     (case select_fault e of
        Some (Returns_error c) \<Rightarrow>
          if c = ''PGRST116'' then Inr None
          else Inl (ServiceError ''SUBSCRIPTION_FETCH_FAILED'')
      | Some Rejects \<Rightarrow> Inl (ServiceError ''SUBSCRIPTION_FETCH_ERROR'')
      | None \<Rightarrow> (case filter (\<lambda>r. user_id r = uid) (user_subscriptions db) of
                   [r] \<Rightarrow> Inr (Some r) | _ \<Rightarrow> Inr None))"
  by (simp add: getSubscription_def select_single_def
           split: option.splits db_fault.splits list.splits)

text \<open>
  Claim C10. \<open>hasPremiumAccess\<close> is a total function to \<open>bool\<close>: it has no error
  result. It answers true exactly when the lookup returns a record whose tier is premium
  and whose status is active or trialing; it answers false when the lookup returns no
  record, when the lookup fails with any error, when the user has no row, and whenever a
  database fault occurs.
\<close>

theorem hasPremiumAccess_total_fail_closed:
  "(hasPremiumAccess e db uid \<longleftrightarrow>
      (\<exists>s. getSubscription e db uid = Inr (Some s) \<and> tier s = Premium \<and>
           (status s = Active \<or> status s = Trialing))) \<and>
   (getSubscription e db uid = Inr None \<longrightarrow> hasPremiumAccess e db uid = False) \<and>
   (\<forall>err. getSubscription e db uid = Inl err \<longrightarrow> hasPremiumAccess e db uid = False) \<and>
   ((\<forall>r \<in> set (user_subscriptions db). user_id r \<noteq> uid) \<longrightarrow>
      hasPremiumAccess e db uid = False) \<and>
   (select_fault e \<noteq> None \<longrightarrow> hasPremiumAccess e db uid = False)"
  apply (intro conjI)
      apply (auto simp: hasPremiumAccess_def split: sum.splits option.splits)[3]
   apply (auto simp: hasPremiumAccess_def getSubscription_cases filter_empty_conv
               split: sum.splits option.splits list.splits db_fault.splits)
  done

theorem hasPremiumAccess_total_fail_closed_witness:
  "getSubscription (env_at 5) (db_of []) ''u1'' = Inr None \<and>
   hasPremiumAccess (env_at 5) (db_of []) ''u1'' = False \<and>
   getSubscription ((env_at 5)\<lparr>select_fault := Some Rejects\<rparr>) (db_of [premium_row]) ''u1''
     = Inl (ServiceError ''SUBSCRIPTION_FETCH_ERROR'') \<and>
   hasPremiumAccess ((env_at 5)\<lparr>select_fault := Some Rejects\<rparr>) (db_of [premium_row]) ''u1''
     = False \<and>
   hasPremiumAccess (env_at 5) (db_of [premium_row]) ''u1'' = True"
  using hasPremiumAccess_total_fail_closed [of "env_at 5" "db_of []" "''u1''"]
        hasPremiumAccess_total_fail_closed
          [of "(env_at 5)\<lparr>select_fault := Some Rejects\<rparr>" "db_of [premium_row]" "''u1''"]
        hasPremiumAccess_total_fail_closed [of "env_at 5" "db_of [premium_row]" "''u1''"]
  by (simp add: getSubscription_cases env_at_def db_of_def premium_row_def free_row_def)

lemma poll_loop_Cons_go:
  "not_yet_premium (lookup_at world uid (lookups_made tr)) \<Longrightarrow>
   poll_loop world uid (a # as) tr =
     poll_loop world uid as
       \<lparr>lookups_made = Suc (lookups_made tr), waited = waited tr @ slept [a]\<rparr>"
  by (cases tr; cases "lookup_at world uid (lookups_made tr)")
     (auto simp: not_yet_premium_def slept_def Let_def split: option.splits)

lemma poll_loop_Cons_premium:
  "lookup_at world uid (lookups_made tr) = Inr (Some s) \<Longrightarrow> tier s = Premium \<Longrightarrow>
   poll_loop world uid (a # as) tr =
     (Inr (Some s), \<lparr>lookups_made = Suc (lookups_made tr), waited = waited tr @ slept [a]\<rparr>)"
  by (cases tr) (auto simp: slept_def Let_def)

lemma poll_loop_Cons_error:
  "lookup_at world uid (lookups_made tr) = Inl err \<Longrightarrow>
   poll_loop world uid (a # as) tr =
     (Inl err, \<lparr>lookups_made = Suc (lookups_made tr), waited = waited tr @ slept [a]\<rparr>)"
  by (cases tr) (auto simp: slept_def Let_def)

lemma slept_Cons: "slept (a # as) = slept [a] @ slept as"
  by (simp add: slept_def)

lemma poll_loop_runs_out:
  "(\<forall>j < length as. not_yet_premium (lookup_at world uid (lookups_made tr + j))) \<Longrightarrow>
   poll_loop world uid as tr =
     (Inr None, \<lparr>lookups_made = lookups_made tr + length as, waited = waited tr @ slept as\<rparr>)"
proof (induction as arbitrary: tr)
  case Nil
  then show ?case by (simp add: slept_def)
next
  case (Cons a as)
  let ?tr = "\<lparr>lookups_made = Suc (lookups_made tr), waited = waited tr @ slept [a]\<rparr>"
  from Cons.prems have h0: "not_yet_premium (lookup_at world uid (lookups_made tr))"
    by auto
  from Cons.prems have "\<forall>j < length as. not_yet_premium (lookup_at world uid (lookups_made ?tr + j))"
    by auto
  from Cons.IH [OF this] poll_loop_Cons_go [OF h0, of a as] show ?case
    by (simp add: slept_Cons [of a as])
qed

lemma poll_loop_stops_early:
  "k < length as \<Longrightarrow>
   (\<forall>j < k. not_yet_premium (lookup_at world uid (lookups_made tr + j))) \<Longrightarrow>
   lookup_at world uid (lookups_made tr + k) = Inr (Some s) \<Longrightarrow> tier s = Premium \<Longrightarrow>
   poll_loop world uid as tr =
     (Inr (Some s), \<lparr>lookups_made = lookups_made tr + Suc k,
                      waited = waited tr @ slept (take (Suc k) as)\<rparr>)"
proof (induction as arbitrary: tr k)
  case Nil
  then show ?case by simp
next
  case (Cons a as)
  show ?case
  proof (cases k)
    case 0
    with Cons.prems poll_loop_Cons_premium [of world uid tr s a as] show ?thesis by simp
  next
    case (Suc k')
    let ?tr = "\<lparr>lookups_made = Suc (lookups_made tr), waited = waited tr @ slept [a]\<rparr>"
    from Cons.prems Suc have h0: "not_yet_premium (lookup_at world uid (lookups_made tr))"
      by auto
    from Cons.prems Suc have a: "k' < length as" by simp
    from Cons.prems Suc have b: "\<forall>j < k'. not_yet_premium (lookup_at world uid (lookups_made ?tr + j))"
      by auto
    from Cons.prems Suc have c: "lookup_at world uid (lookups_made ?tr + k') = Inr (Some s)"
      by simp
    from Cons.IH [OF a b c Cons.prems(4)] poll_loop_Cons_go [OF h0, of a as] Suc show ?thesis
      by (simp add: slept_Cons [of a "take (Suc k') as"])
  qed
qed

lemma poll_loop_lookups:
  "lookups_made (snd (poll_loop world uid as tr)) \<le> lookups_made tr + length as"
proof (induction as arbitrary: tr)
  case Nil
  then show ?case by simp
next
  case (Cons a as)
  let ?tr = "\<lparr>lookups_made = Suc (lookups_made tr), waited = waited tr @ slept [a]\<rparr>"
  show ?case
  proof (cases "not_yet_premium (lookup_at world uid (lookups_made tr))")
    case True
    from Cons.IH [of ?tr] poll_loop_Cons_go [OF True, of a as] show ?thesis by simp
  next
    case False
    then show ?thesis
      by (cases "lookup_at world uid (lookups_made tr)")
         (auto simp: not_yet_premium_def Let_def split: option.splits)
  qed
qed


lemma poll_loop_waited:
  "\<exists>n \<le> length as. waited (snd (poll_loop world uid as tr)) = waited tr @ slept (take n as)"
proof (induction as arbitrary: tr)
  case Nil
  then show ?case by (simp add: slept_def)
next
  case (Cons a as)
  let ?tr = "\<lparr>lookups_made = Suc (lookups_made tr), waited = waited tr @ slept [a]\<rparr>"
  show ?case
  proof (cases "not_yet_premium (lookup_at world uid (lookups_made tr))")
    case True
    from Cons.IH [of ?tr] obtain n where n: "n \<le> length as"
      "waited (snd (poll_loop world uid as ?tr)) = waited ?tr @ slept (take n as)"
      by blast
    from n poll_loop_Cons_go [OF True, of a as]
    have "Suc n \<le> length (a # as) \<and>
      waited (snd (poll_loop world uid (a # as) tr)) = waited tr @ slept (take (Suc n) (a # as))"
      by (simp add: slept_Cons [of a "take n as"])
    then show ?thesis by blast
  next
    case False
    have "waited (snd (poll_loop world uid (a # as) tr)) = waited tr @ slept (take 1 (a # as))"
    proof (cases "lookup_at world uid (lookups_made tr)")
      case (Inl err)
      from poll_loop_Cons_error [OF this, of a as] show ?thesis by simp
    next
      case (Inr x)
      with False obtain s where s: "x = Some s" "tier s = Premium"
        by (cases x) (auto simp: not_yet_premium_def)
      from Inr s poll_loop_Cons_premium [of world uid tr s a as] show ?thesis by simp
    qed
    moreover have "(1::nat) \<le> length (a # as)" by simp
    ultimately show ?thesis by blast
  qed
qed

lemma attempts_eq: "[0..<maxAttempts] = [0, 1, 2]"
  by (simp add: maxAttempts_def upt_rec)

lemma slept_attempts:
  "n \<le> maxAttempts \<Longrightarrow> slept (take n [0..<maxAttempts]) = take (n - 1) delays"
proof -
  assume "n \<le> maxAttempts"
  then have "n = 0 \<or> n = 1 \<or> n = 2 \<or> n = 3" by (auto simp: maxAttempts_def)
  then show ?thesis
    by (auto simp: attempts_eq slept_def delay_before_def delays_def)
qed

lemma refresh_early:
  assumes "k < maxAttempts"
    and "\<forall>j < k. not_yet_premium (lookup_at world uid j)"
    and "lookup_at world uid k = Inr (Some s)" and "tier s = Premium"
  shows "refreshSubscriptionStatus world uid =
           (Inr s, \<lparr>lookups_made = Suc k, waited = take k delays\<rparr>)"
proof -
  let ?tr0 = "\<lparr>lookups_made = 0, waited = []\<rparr>"
  have "poll_loop world uid [0..<maxAttempts] ?tr0 =
     (Inr (Some s), \<lparr>lookups_made = lookups_made ?tr0 + Suc k,
                      waited = waited ?tr0 @ slept (take (Suc k) [0..<maxAttempts])\<rparr>)"
    using assms by (intro poll_loop_stops_early) simp_all
  moreover have "slept (take (Suc k) [0..<maxAttempts]) = take k delays"
    using slept_attempts [of "Suc k"] assms(1) by simp
  ultimately show ?thesis
    by (simp add: refreshSubscriptionStatus_def)
qed

lemma refresh_exhausted:
  assumes "\<forall>j < maxAttempts. not_yet_premium (lookup_at world uid j)"
  shows "refreshSubscriptionStatus world uid =
           ((case lookup_at world uid maxAttempts of
               Inl err \<Rightarrow> Inl err
             | Inr None \<Rightarrow> Inl (ServiceError ''SUBSCRIPTION_NOT_FOUND'')
             | Inr (Some s) \<Rightarrow> Inr s),
            \<lparr>lookups_made = Suc maxAttempts, waited = take (maxAttempts - 1) delays\<rparr>)"
proof -
  let ?tr0 = "\<lparr>lookups_made = 0, waited = []\<rparr>"
  have "poll_loop world uid [0..<maxAttempts] ?tr0 =
     (Inr None, \<lparr>lookups_made = lookups_made ?tr0 + length [0..<maxAttempts],
                 waited = waited ?tr0 @ slept [0..<maxAttempts]\<rparr>)"
    using assms by (intro poll_loop_runs_out) simp
  moreover have "slept [0..<maxAttempts] = take (maxAttempts - 1) delays"
    using slept_attempts [of maxAttempts] by simp
  ultimately show ?thesis
    by (simp add: refreshSubscriptionStatus_def Let_def split: sum.splits option.splits)
qed

lemma refresh_lookups:
  "lookups_made (snd (refreshSubscriptionStatus world uid)) \<le> maxAttempts + 1"
proof -
  let ?tr0 = "\<lparr>lookups_made = 0, waited = []\<rparr>"
  obtain r tr where p: "poll_loop world uid [0..<maxAttempts] ?tr0 = (r, tr)"
    by (cases "poll_loop world uid [0..<maxAttempts] ?tr0")
  from poll_loop_lookups [of world uid "[0..<maxAttempts]" ?tr0] p
  have "lookups_made tr \<le> maxAttempts" by simp
  with p show ?thesis
    by (simp add: refreshSubscriptionStatus_def Let_def split: sum.splits option.splits)
qed

lemma refresh_waited:
  "\<exists>n < maxAttempts. waited (snd (refreshSubscriptionStatus world uid)) = take n delays"
proof -
  let ?tr0 = "\<lparr>lookups_made = 0, waited = []\<rparr>"
  obtain r tr where p: "poll_loop world uid [0..<maxAttempts] ?tr0 = (r, tr)"
    by (cases "poll_loop world uid [0..<maxAttempts] ?tr0")
  from poll_loop_waited [of "[0..<maxAttempts]" world uid ?tr0] p
  obtain n where n: "n \<le> maxAttempts" "waited tr = slept (take n [0..<maxAttempts])"
    by auto
  with slept_attempts [of n] have "waited tr = take (n - 1) delays" by simp
  moreover have "n - 1 < maxAttempts" using n(1) by (simp add: maxAttempts_def)
  moreover have "waited (snd (refreshSubscriptionStatus world uid)) = waited tr"
    using p by (simp add: refreshSubscriptionStatus_def Let_def split: sum.splits option.splits)
  ultimately show ?thesis by auto
qed


text \<open>
  Claim C8. The post-payment convergence check is a total function: it always returns.
  It makes at most \<open>maxAttempts = 3\<close> polling lookups and one final lookup, sleeps a
  prefix of the increasing delays 1000, 2000 (milliseconds) between them, and stops at
  the first lookup that reads tier premium, returning that record. When no polling lookup
  reads premium it returns the record of the final lookup, whatever its tier. For a user
  whose record exists at every lookup the result is always one of the records read,
  never an error.
\<close>

theorem refreshSubscriptionStatus_bounded_polling:
  "maxAttempts = 3 \<and> sorted_wrt (<) delays \<and>
   lookups_made (snd (refreshSubscriptionStatus world uid)) \<le> maxAttempts + 1 \<and>
   (\<exists>n < maxAttempts. waited (snd (refreshSubscriptionStatus world uid)) = take n delays) \<and>
   (\<forall>k s. k < maxAttempts \<and> (\<forall>j < k. not_yet_premium (lookup_at world uid j)) \<and>
          lookup_at world uid k = Inr (Some s) \<and> tier s = Premium \<longrightarrow>
      refreshSubscriptionStatus world uid =
        (Inr s, \<lparr>lookups_made = Suc k, waited = take k delays\<rparr>)) \<and>
   (\<forall>s. (\<forall>j < maxAttempts. not_yet_premium (lookup_at world uid j)) \<and>
        lookup_at world uid maxAttempts = Inr (Some s) \<longrightarrow>
      refreshSubscriptionStatus world uid =
        (Inr s, \<lparr>lookups_made = Suc maxAttempts, waited = take (maxAttempts - 1) delays\<rparr>)) \<and>
   ((\<forall>k \<le> maxAttempts. \<exists>s. lookup_at world uid k = Inr (Some s)) \<longrightarrow>
      (\<exists>k \<le> maxAttempts. \<exists>s. fst (refreshSubscriptionStatus world uid) = Inr s \<and>
           lookup_at world uid k = Inr (Some s)))"
proof (intro conjI allI impI)
  show "maxAttempts = 3" by (simp add: maxAttempts_def)
  show "sorted_wrt (<) delays" by (simp add: delays_def)
  show "lookups_made (snd (refreshSubscriptionStatus world uid)) \<le> maxAttempts + 1"
    by (rule refresh_lookups)
  show "\<exists>n < maxAttempts. waited (snd (refreshSubscriptionStatus world uid)) = take n delays"
    by (rule refresh_waited)
next
  fix k s
  assume "k < maxAttempts \<and> (\<forall>j < k. not_yet_premium (lookup_at world uid j)) \<and>
          lookup_at world uid k = Inr (Some s) \<and> tier s = Premium"
  then show "refreshSubscriptionStatus world uid =
        (Inr s, \<lparr>lookups_made = Suc k, waited = take k delays\<rparr>)"
    using refresh_early [of k world uid s] by blast
next
  fix s
  assume "(\<forall>j < maxAttempts. not_yet_premium (lookup_at world uid j)) \<and>
        lookup_at world uid maxAttempts = Inr (Some s)"
  then show "refreshSubscriptionStatus world uid =
        (Inr s, \<lparr>lookups_made = Suc maxAttempts, waited = take (maxAttempts - 1) delays\<rparr>)"
    using refresh_exhausted [of world uid] by simp
next
  let ?g = "lookup_at world uid"
  assume ex: "\<forall>k \<le> maxAttempts. \<exists>s. ?g k = Inr (Some s)"
  show "\<exists>k \<le> maxAttempts. \<exists>s. fst (refreshSubscriptionStatus world uid) = Inr s \<and>
           ?g k = Inr (Some s)"
  proof (cases "\<exists>k. k < maxAttempts \<and> \<not> not_yet_premium (?g k)")
    case True
    define k where "k = (LEAST k. k < maxAttempts \<and> \<not> not_yet_premium (?g k))"
    from True have k: "k < maxAttempts \<and> \<not> not_yet_premium (?g k)"
      unfolding k_def by (rule LeastI_ex)
    have before: "\<forall>j < k. not_yet_premium (?g j)"
    proof (intro allI impI)
      fix j assume "j < k"
      then have "\<not> (j < maxAttempts \<and> \<not> not_yet_premium (?g j))"
        unfolding k_def by (rule not_less_Least)
      with \<open>j < k\<close> k show "not_yet_premium (?g j)" by simp
    qed
    from k have "k \<le> maxAttempts" by simp
    with ex obtain s where s: "?g k = Inr (Some s)" by blast
    with k have "tier s = Premium" by (simp add: not_yet_premium_def)
    with refresh_early [of k world uid s] k before s
    have "fst (refreshSubscriptionStatus world uid) = Inr s" by simp
    with s k show ?thesis by (intro exI [of _ k] exI [of _ s]) simp
  next
    case False
    then have all: "\<forall>j < maxAttempts. not_yet_premium (?g j)" by blast
    from ex obtain s where s: "?g maxAttempts = Inr (Some s)" by auto
    with refresh_exhausted [OF all]
    have "fst (refreshSubscriptionStatus world uid) = Inr s" by simp
    with s show ?thesis by (intro exI [of _ maxAttempts] exI [of _ s]) simp
  qed
qed

theorem refreshSubscriptionStatus_bounded_polling_witness:
  "refreshSubscriptionStatus (world_of [free_row] (\<lambda>k. [premium_row])) ''u1'' =
     (Inr premium_row, \<lparr>lookups_made = 2, waited = [1000]\<rparr>) \<and>
   refreshSubscriptionStatus (world_of [free_row] (\<lambda>k. [free_row])) ''u1'' =
     (Inr free_row, \<lparr>lookups_made = 4, waited = [1000, 2000]\<rparr>)"
proof -
  let ?w1 = "world_of [free_row] (\<lambda>k. [premium_row])"
  let ?w2 = "world_of [free_row] (\<lambda>k. [free_row])"
  have g1: "lookup_at ?w1 ''u1'' k = Inr (Some (if k = 0 then free_row else premium_row))" for k
    by (simp add: lookup_at_def world_of_def getSubscription_cases env_at_def db_of_def
          premium_row_def free_row_def)
  have g2: "lookup_at ?w2 ''u1'' k = Inr (Some free_row)" for k
    by (simp add: lookup_at_def world_of_def getSubscription_cases env_at_def db_of_def
          free_row_def)
  have t: "tier free_row = Free" "tier premium_row = Premium"
    by (simp_all add: premium_row_def free_row_def)
  from refreshSubscriptionStatus_bounded_polling [of ?w1 "''u1''"]
  have "1 < maxAttempts \<and> (\<forall>j < 1. not_yet_premium (lookup_at ?w1 ''u1'' j)) \<and>
          lookup_at ?w1 ''u1'' 1 = Inr (Some premium_row) \<and> tier premium_row = Premium \<longrightarrow>
      refreshSubscriptionStatus ?w1 ''u1'' =
        (Inr premium_row, \<lparr>lookups_made = Suc 1, waited = take 1 delays\<rparr>)"
    by blast
  then have a: "refreshSubscriptionStatus ?w1 ''u1'' =
     (Inr premium_row, \<lparr>lookups_made = 2, waited = [1000]\<rparr>)"
    by (simp add: g1 t not_yet_premium_def maxAttempts_def delays_def)
  from refreshSubscriptionStatus_bounded_polling [of ?w2 "''u1''"]
  have "(\<forall>j < maxAttempts. not_yet_premium (lookup_at ?w2 ''u1'' j)) \<and>
        lookup_at ?w2 ''u1'' maxAttempts = Inr (Some free_row) \<longrightarrow>
      refreshSubscriptionStatus ?w2 ''u1'' =
        (Inr free_row, \<lparr>lookups_made = Suc maxAttempts, waited = take (maxAttempts - 1) delays\<rparr>)"
    by blast
  then have b: "refreshSubscriptionStatus ?w2 ''u1'' =
     (Inr free_row, \<lparr>lookups_made = 4, waited = [1000, 2000]\<rparr>)"
    by (simp add: g2 t not_yet_premium_def maxAttempts_def delays_def)
  from a b show ?thesis by simp
qed

text \<open>
  Claim C7, as stated, fails: a lookup for a user with no record answers \<open>null\<close>.
\<close>

theorem getSubscription_no_record_counterexample:
  "user_subscriptions (db_of []) = [] \<and>
   getSubscription (env_at 5) (db_of []) ''u1'' = Inr None"
  by (simp add: getSubscription_cases env_at_def db_of_def)

text \<open>
  Claim C7, amended. A lookup only reads the store (\<open>getSubscription\<close> returns no
  database). When the call succeeds and the user has no row it reports absence
  (\<open>null\<close>); when the user has exactly one row it returns that row as stored.
\<close>

theorem getSubscription_reports_absence:
  "select_fault e = None \<Longrightarrow>
   ((\<forall>r \<in> set (user_subscriptions db). user_id r \<noteq> uid) \<longrightarrow>
      getSubscription e db uid = Inr None) \<and>
   (\<forall>r. filter (\<lambda>x. user_id x = uid) (user_subscriptions db) = [r] \<longrightarrow>
      getSubscription e db uid = Inr (Some r))"
  by (auto simp: getSubscription_cases filter_empty_conv split: list.splits)

theorem getSubscription_reports_absence_witness:
  "select_fault (env_at 5) = None \<and>
   getSubscription (env_at 5) (db_of [free_row]) ''u2'' = Inr None \<and>
   getSubscription (env_at 5) (db_of [free_row]) ''u1'' = Inr (Some free_row)"
proof -
  have f: "select_fault (env_at 5) = None" by (simp add: env_at_def)
  have a: "\<forall>r \<in> set (user_subscriptions (db_of [free_row])). user_id r \<noteq> ''u2''"
    by (simp add: db_of_def free_row_def)
  have b: "filter (\<lambda>x. user_id x = ''u1'') (user_subscriptions (db_of [free_row])) = [free_row]"
    by (simp add: db_of_def free_row_def)
  from getSubscription_reports_absence [OF f, of "db_of [free_row]" "''u2''"] a
       getSubscription_reports_absence [OF f, of "db_of [free_row]" "''u1''"] b f
  show ?thesis by blast
qed

section \<open>Properties of the webhook consumer\<close>

text \<open>
  Claim C5. For a POST request: when the \<open>stripe-signature\<close> header is missing (or
  empty) or the signature check fails, the status is 400 and the database is unchanged;
  when the check passes the status is 200 and the database is what processing the event
  left, also when the event's handler threw.
\<close>

theorem serve_response_contract:
  "req_method req = ''POST'' \<Longrightarrow>
   ((stripe_signature_header req = None \<or> stripe_signature_header req = Some [] \<or>
     (\<exists>sg. stripe_signature_header req = Some sg \<and> constructEvent (req_body req) sg = None)) \<longrightarrow>
      resp_status (fst (serve constructEvent e req db)) = 400 \<and>
      snd (serve constructEvent e req db) = db) \<and>
   (\<forall>sg ev. stripe_signature_header req = Some sg \<and> sg \<noteq> [] \<and>
        constructEvent (req_body req) sg = Some ev \<longrightarrow>
      resp_status (fst (serve constructEvent e req db)) = 200 \<and>
      snd (serve constructEvent e req db) = process_event e ev db) \<and>
   (\<forall>sg ev err. stripe_signature_header req = Some sg \<and> sg \<noteq> [] \<and>
        constructEvent (req_body req) sg = Some ev \<and>
        fst (handle_event e (payload ev) db) = Some err \<longrightarrow>
      resp_status (fst (serve constructEvent e req db)) = 200)"
  by (auto simp: serve_def verifyWebhookSignature_def split: option.splits)

theorem serve_response_contract_witness:
  "resp_status (fst (serve (accept_good created_event) (env_at 5) (post_request None) (db_of [free_row]))) = 400 \<and>
   snd (serve (accept_good created_event) (env_at 5) (post_request None) (db_of [free_row])) = db_of [free_row] \<and>
   resp_status (fst (serve (accept_good created_event) (env_at 5) (post_request (Some ''bad'')) (db_of [free_row]))) = 400 \<and>
   snd (serve (accept_good created_event) (env_at 5) (post_request (Some ''bad'')) (db_of [free_row])) = db_of [free_row] \<and>
   fst (handle_event (env_at 5) (payload created_event) (db_of [])) = Some (User_not_found ''cus_1'') \<and>
   resp_status (fst (serve (accept_good created_event) (env_at 5) (post_request (Some ''good'')) (db_of []))) = 200"
proof -
  have p: "req_method (post_request sg) = ''POST''" for sg
    by (simp add: post_request_def)
  have h: "fst (handle_event (env_at 5) (payload created_event) (db_of [])) = Some (User_not_found ''cus_1'')"
    by (simp add: created_event_def handleSubscriptionCreated_def select_single_def env_at_def
          db_of_def sub_1_def)
  from serve_response_contract [OF p, of None "accept_good created_event" "env_at 5" "db_of [free_row]"]
       serve_response_contract [OF p, of "Some ''bad''" "accept_good created_event" "env_at 5" "db_of [free_row]"]
       serve_response_contract [OF p, of "Some ''good''" "accept_good created_event" "env_at 5" "db_of []"]
       h
  show ?thesis
    by (simp add: post_request_def accept_good_def)
qed

text \<open>
  Claim C1, as stated, fails. The record of \<open>u1\<close> is upgraded by the creation event
  (sent at second 1700000200, applied at millisecond 1700000300000: status trialing, tier
  premium). An update sent earlier (second 1700000100) and arriving afterwards is applied:
  the status becomes incomplete; an earlier immediate cancellation arriving afterwards
  sets the tier back to free.
\<close>

theorem out_of_order_event_counterexample:
  "event_created older_updated_event < event_created created_event \<and>
   event_created older_canceled_event < event_created created_event \<and>
   map tier
     (user_subscriptions (process_event (env_at 1700000300000) created_event (db_of [free_row])))
     = [Premium] \<and>
   map status
     (user_subscriptions (process_event (env_at 1700000300000) created_event (db_of [free_row])))
     = [Trialing] \<and>
   map updated_at
     (user_subscriptions (process_event (env_at 1700000300000) created_event (db_of [free_row])))
     = [1700000300000] \<and>
   event_created older_updated_event * 1000 < 1700000300000 \<and>
   map status
     (user_subscriptions
        (process_event (env_at 1700000400000) older_updated_event
           (process_event (env_at 1700000300000) created_event (db_of [free_row]))))
     = [Incomplete] \<and>
   map tier
     (user_subscriptions
        (process_event (env_at 1700000400000) older_canceled_event
           (process_event (env_at 1700000300000) created_event (db_of [free_row]))))
     = [Free]"
  by (simp add: process_event_def created_event_def older_updated_event_def
        older_canceled_event_def handleSubscriptionCreated_def handleSubscriptionUpdated_def
        seconds_to_timestamp_def to_iso_string_def max_time_value_def
        select_single_def update_where_def env_at_def db_of_def free_row_def sub_1_def)

lemma update_where_map:
  assumes "\<And>r. p r \<Longrightarrow> h (f r) = h r"
  shows "map h (update_where p f rows) = map h rows"
  using assms by (induction rows) (auto simp: update_where_def)

lemma update_where_touched:
  assumes "\<And>r. p (g r) = p r" and "\<And>r. h (f (g r)) = h (f r)" and "\<And>r. h (g r) = h r"
  shows "map h (update_where p f (map g rows)) = map h (update_where p f rows)"
  using assms by (induction rows) (auto simp: update_where_def)

lemma update_where_matching:
  assumes "\<And>r. p (f r) = p r"
  shows "\<forall>r \<in> set (update_where p f rows). p r \<longrightarrow> (\<exists>r0 \<in> set rows. r = f r0)"
  using assms by (induction rows) (auto simp: update_where_def)

lemma select_single_touched:
  assumes "\<And>r. p (g r) = p r"
  shows "select_single fault p (map g rows) =
           (case select_single fault p rows of
              Data r \<Rightarrow> Data (g r) | Error c \<Rightarrow> Error c | Thrown \<Rightarrow> Thrown)"
proof -
  have "filter p (map g rows) = map g (filter p rows)"
    using assms by (induction rows) auto
  then show ?thesis
    by (auto simp: select_single_def split: option.splits db_fault.splits list.splits)
qed

lemma event_timestamp_unread:
  "process_event e (ev\<lparr>event_created := t\<rparr>) db = process_event e ev db"
  by (simp add: process_event_def)

lemma handlers_keep_identity:
  "map user_id (user_subscriptions (process_event e ev db)) =
     map user_id (user_subscriptions db) \<and>
   map stripe_customer_id (user_subscriptions (process_event e ev db)) =
     map stripe_customer_id (user_subscriptions db)"
  by (cases "payload ev")
     (auto simp: process_event_def handleSubscriptionCreated_def handleSubscriptionUpdated_def
        handleSubscriptionDeleted_def handlePaymentFailed_def Let_def update_where_map
        split: query_result.splits sum.splits option.splits db_fault.splits)

lemma last_updated_unread:
  "map tier (user_subscriptions (process_event e ev (with_last_updated u db))) =
     map tier (user_subscriptions (process_event e ev db)) \<and>
   map status (user_subscriptions (process_event e ev (with_last_updated u db))) =
     map status (user_subscriptions (process_event e ev db))"
proof (cases "payload ev")
  case (Customer_subscription_created s)
  let ?p = "\<lambda>r. stripe_customer_id r = Some (expandable_id (sub_customer s))"
  let ?g = "\<lambda>r. r\<lparr>updated_at := u r\<rparr>"
  have sel: "select_single (select_fault e) ?p (map ?g (user_subscriptions db)) =
           (case select_single (select_fault e) ?p (user_subscriptions db) of
              Data r \<Rightarrow> Data (?g r) | Error c \<Rightarrow> Error c | Thrown \<Rightarrow> Thrown)"
    by (rule select_single_touched) simp
  show ?thesis
    using Customer_subscription_created
    by (cases "select_single (select_fault e) ?p (user_subscriptions db)")
       (auto simp: process_event_def handleSubscriptionCreated_def with_last_updated_def sel
          Let_def comp_def intro!: update_where_touched
          split: sum.splits option.splits db_fault.splits)
next
  case (Customer_subscription_updated s)
  then show ?thesis
    by (auto simp: process_event_def handleSubscriptionUpdated_def with_last_updated_def
          Let_def comp_def intro!: update_where_touched split: sum.splits option.splits)
next
  case (Customer_subscription_deleted s)
  then show ?thesis
    by (auto simp: process_event_def handleSubscriptionDeleted_def with_last_updated_def
          comp_def intro!: update_where_touched split: option.splits)
next
  case (Invoice_payment_failed i)
  then show ?thesis
    by (auto simp: process_event_def handlePaymentFailed_def with_last_updated_def
          Let_def comp_def intro!: update_where_touched split: option.splits)
next
  case (Unhandled t)
  then show ?thesis
    by (simp add: process_event_def with_last_updated_def comp_def)
qed

lemma updated_effect:
  assumes "update_fault e = None" and "updated_dates_valid s"
  shows "map stripe_subscription_id (user_subscriptions (snd (handleSubscriptionUpdated e s db)))
           = map stripe_subscription_id (user_subscriptions db)"
    and "\<forall>r \<in> set (user_subscriptions (snd (handleSubscriptionUpdated e s db))).
           stripe_subscription_id r = Some (sub_id s) \<longrightarrow>
             status r = sub_status s \<and>
             (sub_status s = Canceled \<and> \<not> sub_cancel_at_period_end s \<longrightarrow> tier r = Free)"
    and "\<not> (sub_status s = Canceled \<and> \<not> sub_cancel_at_period_end s) \<Longrightarrow>
           map tier (user_subscriptions (snd (handleSubscriptionUpdated e s db)))
             = map tier (user_subscriptions db)"
  using assms
  by (auto simp: handleSubscriptionUpdated_def updated_dates_valid_def update_where_def Let_def
        split: sum.splits)

lemma created_effect:
  assumes "select_fault e = None" and "update_fault e = None" and "created_dates_valid s"
    and "length (filter (\<lambda>r. stripe_customer_id r = Some (expandable_id (sub_customer s)))
                   (user_subscriptions db)) = 1"
  shows "\<forall>r \<in> set (user_subscriptions (snd (handleSubscriptionCreated e s db))).
           stripe_customer_id r = Some (expandable_id (sub_customer s)) \<longrightarrow>
             tier r = Premium \<and> status r = sub_status s \<and>
             stripe_subscription_id r = Some (sub_id s)"
proof -
  let ?p = "\<lambda>r. stripe_customer_id r = Some (expandable_id (sub_customer s))"
  from assms(4) obtain r0 where "filter ?p (user_subscriptions db) = [r0]"
    by (cases "filter ?p (user_subscriptions db)") auto
  with assms(1) have "select_single (select_fault e) ?p (user_subscriptions db) = Data r0"
    by (simp add: select_single_def)
  with assms(2,3) show ?thesis
    by (auto simp: handleSubscriptionCreated_def created_dates_valid_def update_where_def
          Let_def split: sum.splits option.splits db_fault.splits)
qed

lemma deleted_effect:
  assumes "update_fault e = None"
  shows "map stripe_subscription_id (user_subscriptions (snd (handleSubscriptionDeleted e s db)))
           = map stripe_subscription_id (user_subscriptions db)"
    and "\<forall>r \<in> set (user_subscriptions (snd (handleSubscriptionDeleted e s db))).
           stripe_subscription_id r = Some (sub_id s) \<longrightarrow> tier r = Free \<and> status r = Canceled"
  using assms by (auto simp: handleSubscriptionDeleted_def update_where_def)

lemma payment_failed_effect:
  assumes "update_fault e = None"
    and "map_option expandable_id (invoice_subscription i) = Some sid" and "sid \<noteq> []"
  shows "map stripe_subscription_id (user_subscriptions (snd (handlePaymentFailed e i db)))
           = map stripe_subscription_id (user_subscriptions db)"
    and "map tier (user_subscriptions (snd (handlePaymentFailed e i db)))
           = map tier (user_subscriptions db)"
    and "\<forall>r \<in> set (user_subscriptions (snd (handlePaymentFailed e i db))).
           stripe_subscription_id r = Some sid \<longrightarrow> status r = Past_due"
  using assms by (auto simp: handlePaymentFailed_def update_where_def Let_def)

lemma updated_range_error:
  "\<not> updated_dates_valid s \<Longrightarrow> snd (handleSubscriptionUpdated e s db) = db"
  by (auto simp: handleSubscriptionUpdated_def updated_dates_valid_def Let_def split: sum.splits)

lemma created_range_error:
  "\<not> created_dates_valid s \<Longrightarrow> snd (handleSubscriptionCreated e s db) = db"
  by (auto simp: handleSubscriptionCreated_def created_dates_valid_def Let_def
        split: query_result.splits sum.splits)

text \<open>
  Claim C1, amended. The consumer compares no timestamps: it applies each verified event
  in arrival order. For every event the result does not depend on the event's own
  timestamp, and the tier and status it leaves do not depend on the records' last-updated
  times; the records keep their user and customer references. When the handler's date
  conversions and database calls succeed, the event is applied however old it is:
  an \<open>updated\<close> event gives every record of its subscription the event's status, sets
  its tier to free when that status is canceled with \<open>cancel_at_period_end\<close> false, and
  otherwise changes no tier; a \<open>created\<close> event for a customer with exactly one record
  makes that record premium with the event's status and subscription reference; a
  \<open>deleted\<close> event makes every record of its subscription free and canceled; a
  \<open>payment_failed\<close> event makes every record of its subscription past due and changes
  no tier. An \<open>updated\<close> or \<open>created\<close> event with a date outside the range of
  \<open>Date\<close> changes nothing.
\<close>

theorem events_applied_in_arrival_order:
  "(\<forall>t. process_event e (ev\<lparr>event_created := t\<rparr>) db = process_event e ev db) \<and>
   (\<forall>u. map tier (user_subscriptions (process_event e ev (with_last_updated u db))) =
          map tier (user_subscriptions (process_event e ev db)) \<and>
        map status (user_subscriptions (process_event e ev (with_last_updated u db))) =
          map status (user_subscriptions (process_event e ev db))) \<and>
   map user_id (user_subscriptions (process_event e ev db)) =
     map user_id (user_subscriptions db) \<and>
   map stripe_customer_id (user_subscriptions (process_event e ev db)) =
     map stripe_customer_id (user_subscriptions db) \<and>
   (\<forall>s. payload ev = Customer_subscription_updated s \<and> update_fault e = None \<and>
        updated_dates_valid s \<longrightarrow>
      map stripe_subscription_id (user_subscriptions (process_event e ev db)) =
        map stripe_subscription_id (user_subscriptions db) \<and>
      (\<forall>r \<in> set (user_subscriptions (process_event e ev db)).
         stripe_subscription_id r = Some (sub_id s) \<longrightarrow>
           status r = sub_status s \<and>
           (sub_status s = Canceled \<and> \<not> sub_cancel_at_period_end s \<longrightarrow> tier r = Free)) \<and>
      (\<not> (sub_status s = Canceled \<and> \<not> sub_cancel_at_period_end s) \<longrightarrow>
         map tier (user_subscriptions (process_event e ev db)) =
           map tier (user_subscriptions db))) \<and>
   (\<forall>s. payload ev = Customer_subscription_created s \<and> select_fault e = None \<and>
        update_fault e = None \<and> created_dates_valid s \<and>
        length (filter (\<lambda>r. stripe_customer_id r = Some (expandable_id (sub_customer s)))
                  (user_subscriptions db)) = 1 \<longrightarrow>
      (\<forall>r \<in> set (user_subscriptions (process_event e ev db)).
         stripe_customer_id r = Some (expandable_id (sub_customer s)) \<longrightarrow>
           tier r = Premium \<and> status r = sub_status s \<and>
           stripe_subscription_id r = Some (sub_id s))) \<and>
   (\<forall>s. payload ev = Customer_subscription_deleted s \<and> update_fault e = None \<longrightarrow>
      map stripe_subscription_id (user_subscriptions (process_event e ev db)) =
        map stripe_subscription_id (user_subscriptions db) \<and>
      (\<forall>r \<in> set (user_subscriptions (process_event e ev db)).
         stripe_subscription_id r = Some (sub_id s) \<longrightarrow> tier r = Free \<and> status r = Canceled)) \<and>
   (\<forall>i sid. payload ev = Invoice_payment_failed i \<and> update_fault e = None \<and>
        map_option expandable_id (invoice_subscription i) = Some sid \<and> sid \<noteq> [] \<longrightarrow>
      map stripe_subscription_id (user_subscriptions (process_event e ev db)) =
        map stripe_subscription_id (user_subscriptions db) \<and>
      map tier (user_subscriptions (process_event e ev db)) =
        map tier (user_subscriptions db) \<and>
      (\<forall>r \<in> set (user_subscriptions (process_event e ev db)).
         stripe_subscription_id r = Some sid \<longrightarrow> status r = Past_due)) \<and>
   (\<forall>s. payload ev = Customer_subscription_updated s \<and> \<not> updated_dates_valid s \<longrightarrow>
      process_event e ev db = db) \<and>
   (\<forall>s. payload ev = Customer_subscription_created s \<and> \<not> created_dates_valid s \<longrightarrow>
      process_event e ev db = db)"
proof -
  have upd: "payload ev = Customer_subscription_updated s \<Longrightarrow>
      process_event e ev db = snd (handleSubscriptionUpdated e s db)" for s
    by (simp add: process_event_def)
  have cre: "payload ev = Customer_subscription_created s \<Longrightarrow>
      process_event e ev db = snd (handleSubscriptionCreated e s db)" for s
    by (simp add: process_event_def)
  have del: "payload ev = Customer_subscription_deleted s \<Longrightarrow>
      process_event e ev db = snd (handleSubscriptionDeleted e s db)" for s
    by (simp add: process_event_def)
  have pay: "payload ev = Invoice_payment_failed i \<Longrightarrow>
      process_event e ev db = snd (handlePaymentFailed e i db)" for i
    by (simp add: process_event_def)
  show ?thesis
    apply (intro conjI allI)
           apply (rule event_timestamp_unread)
          apply (rule last_updated_unread [THEN conjunct1])
         apply (rule last_updated_unread [THEN conjunct2])
        apply (rule handlers_keep_identity [THEN conjunct1])
       apply (rule handlers_keep_identity [THEN conjunct2])
      apply (intro impI, elim conjE, simp only: upd)
      apply (intro conjI impI updated_effect; assumption)
     apply (intro impI, elim conjE, simp only: cre)
     apply (rule created_effect; assumption)
    apply (intro impI, elim conjE, simp only: del)
    apply (intro conjI deleted_effect; assumption)
     apply (intro impI, elim conjE, simp only: pay)
     apply (intro conjI payment_failed_effect; assumption)
    apply (intro impI, elim conjE, simp only: upd)
    apply (rule updated_range_error, assumption)
   apply (intro impI, elim conjE, simp only: cre)
   apply (rule created_range_error, assumption)
  done
qed

lemma singleton_of_map:
  "map k rows = [v] \<Longrightarrow> \<exists>r. rows = [r] \<and> k r = v"
  by (cases rows) auto

theorem events_applied_in_arrival_order_witness:
  "event_created older_updated_event * 1000 < updated_at (premium_row\<lparr>updated_at := 1700000300000\<rparr>) \<and>
   map status (user_subscriptions (process_event (env_at 1700000400000) older_updated_event
        (db_of [premium_row\<lparr>updated_at := 1700000300000\<rparr>]))) = [Incomplete] \<and>
   map tier (user_subscriptions (process_event (env_at 1700000400000) older_updated_event
        (db_of [premium_row\<lparr>updated_at := 1700000300000\<rparr>]))) = [Premium] \<and>
   event_created created_event < event_created deleted_event \<and>
   event_created created_event * 1000 < updated_at deleted_row \<and>
   map tier (user_subscriptions (process_event (env_at 1700000700000) created_event
        (db_of [deleted_row]))) = [Premium] \<and>
   map status (user_subscriptions (process_event (env_at 1700000700000) created_event
        (db_of [deleted_row]))) = [Trialing] \<and>
   map tier (user_subscriptions (process_event (env_at 1700000600000) deleted_event
        (db_of [premium_row]))) = [Free] \<and>
   map status (user_subscriptions (process_event (env_at 1700000600000) deleted_event
        (db_of [premium_row]))) = [Canceled] \<and>
   map status (user_subscriptions (process_event (env_at 1700000700000) payment_failed_event
        (db_of [premium_row]))) = [Past_due] \<and>
   map tier (user_subscriptions (process_event (env_at 1700000700000) payment_failed_event
        (db_of [premium_row]))) = [Premium] \<and>
   process_event (env_at 1700000700000)
       (older_updated_event\<lparr>payload := Customer_subscription_updated
          (sub_1\<lparr>sub_canceled_at := Some 8640000000001\<rparr>)\<rparr>) (db_of [premium_row])
     = db_of [premium_row]"
proof -
  have f: "update_fault (env_at t) = None" "select_fault (env_at t) = None" for t
    by (simp_all add: env_at_def)
  have rows: "user_subscriptions (db_of rs) = rs" for rs
    by (simp add: db_of_def)
  have pr: "stripe_subscription_id premium_row = Some ''sub_1''"
    "stripe_customer_id premium_row = Some ''cus_1''" "tier premium_row = Premium"
    by (simp_all add: premium_row_def free_row_def)
  have dr: "stripe_customer_id deleted_row = Some ''cus_1''"
    "updated_at deleted_row = 1700000600000"
    by (simp_all add: deleted_row_def premium_row_def free_row_def)
  have s1: "sub_id sub_1 = ''sub_1''" "expandable_id (sub_customer sub_1) = ''cus_1''"
    "sub_status sub_1 = Trialing" "\<not> sub_cancel_at_period_end sub_1"
    by (simp_all add: sub_1_def)
  have dates: "created_dates_valid sub_1" "updated_dates_valid (sub_1\<lparr>sub_status := Incomplete\<rparr>)"
    "\<not> updated_dates_valid (sub_1\<lparr>sub_canceled_at := Some 8640000000001\<rparr>)"
    by (simp_all add: created_dates_valid_def updated_dates_valid_def seconds_to_timestamp_def
          to_iso_string_def max_time_value_def sub_1_def)

  \<comment> \<open>an older update after a newer state\<close>
  let ?e1 = "env_at 1700000400000"
  let ?db1 = "db_of [premium_row\<lparr>updated_at := 1700000300000\<rparr>]"
  let ?r1 = "user_subscriptions (process_event ?e1 older_updated_event ?db1)"
  have p1: "payload older_updated_event = Customer_subscription_updated (sub_1\<lparr>sub_status := Incomplete\<rparr>)"
    by (simp add: older_updated_event_def)
  from events_applied_in_arrival_order [of ?e1 older_updated_event ?db1] p1 f dates
  have a1: "map stripe_subscription_id ?r1 = map stripe_subscription_id (user_subscriptions ?db1)"
    and b1: "\<forall>r \<in> set ?r1. stripe_subscription_id r = Some (sub_id (sub_1\<lparr>sub_status := Incomplete\<rparr>)) \<longrightarrow>
               status r = sub_status (sub_1\<lparr>sub_status := Incomplete\<rparr>)"
    and c1: "map tier ?r1 = map tier (user_subscriptions ?db1)"
    by simp_all
  from a1 have "map stripe_subscription_id ?r1 = [Some ''sub_1'']"
    by (simp add: rows pr)
  then obtain r1 where r1: "?r1 = [r1]" "stripe_subscription_id r1 = Some ''sub_1''"
    using singleton_of_map by blast
  with b1 have w1: "map status ?r1 = [Incomplete]" by (simp add: s1)
  from c1 have w1': "map tier ?r1 = [Premium]" by (simp add: rows pr)

  \<comment> \<open>an older creation after a deletion\<close>
  let ?e2 = "env_at 1700000700000"
  let ?r2 = "user_subscriptions (process_event ?e2 created_event (db_of [deleted_row]))"
  have p2: "payload created_event = Customer_subscription_created sub_1"
    by (simp add: created_event_def)
  have one: "length (filter (\<lambda>r. stripe_customer_id r = Some (expandable_id (sub_customer sub_1)))
                  (user_subscriptions (db_of [deleted_row]))) = 1"
    by (simp add: rows dr s1)
  from events_applied_in_arrival_order [of ?e2 created_event "db_of [deleted_row]"] p2 f dates one
  have a2: "map stripe_customer_id ?r2 = map stripe_customer_id (user_subscriptions (db_of [deleted_row]))"
    and b2: "\<forall>r \<in> set ?r2. stripe_customer_id r = Some (expandable_id (sub_customer sub_1)) \<longrightarrow>
               tier r = Premium \<and> status r = sub_status sub_1 \<and>
               stripe_subscription_id r = Some (sub_id sub_1)"
    by simp_all
  from a2 have "map stripe_customer_id ?r2 = [Some ''cus_1'']"
    by (simp add: rows dr)
  then obtain r2 where r2: "?r2 = [r2]" "stripe_customer_id r2 = Some ''cus_1''"
    using singleton_of_map by blast
  with b2 have w2: "map tier ?r2 = [Premium]" "map status ?r2 = [Trialing]"
    by (simp_all add: s1)

  \<comment> \<open>a deletion\<close>
  let ?e3 = "env_at 1700000600000"
  let ?r3 = "user_subscriptions (process_event ?e3 deleted_event (db_of [premium_row]))"
  have p3: "payload deleted_event = Customer_subscription_deleted sub_1"
    by (simp add: deleted_event_def)
  from events_applied_in_arrival_order [of ?e3 deleted_event "db_of [premium_row]"] p3 f
  have a3: "map stripe_subscription_id ?r3 = map stripe_subscription_id (user_subscriptions (db_of [premium_row]))"
    and b3: "\<forall>r \<in> set ?r3. stripe_subscription_id r = Some (sub_id sub_1) \<longrightarrow>
               tier r = Free \<and> status r = Canceled"
    by simp_all
  from a3 have "map stripe_subscription_id ?r3 = [Some ''sub_1'']"
    by (simp add: rows pr)
  then obtain r3 where r3: "?r3 = [r3]" "stripe_subscription_id r3 = Some ''sub_1''"
    using singleton_of_map by blast
  with b3 have w3: "map tier ?r3 = [Free]" "map status ?r3 = [Canceled]"
    by (simp_all add: s1)

  \<comment> \<open>a failed payment\<close>
  let ?r4 = "user_subscriptions (process_event ?e2 payment_failed_event (db_of [premium_row]))"
  let ?i = "\<lparr>invoice_subscription = Some (Id_string ''sub_1'')\<rparr>"
  have p4: "payload payment_failed_event = Invoice_payment_failed ?i"
    "map_option expandable_id (invoice_subscription ?i) = Some ''sub_1''" "''sub_1'' \<noteq> []"
    by (simp_all add: payment_failed_event_def)
  from events_applied_in_arrival_order [of ?e2 payment_failed_event "db_of [premium_row]"] p4 f
  have a4: "map stripe_subscription_id ?r4 = map stripe_subscription_id (user_subscriptions (db_of [premium_row]))"
    and b4: "\<forall>r \<in> set ?r4. stripe_subscription_id r = Some ''sub_1'' \<longrightarrow> status r = Past_due"
    and c4: "map tier ?r4 = map tier (user_subscriptions (db_of [premium_row]))"
    by simp_all
  from a4 have "map stripe_subscription_id ?r4 = [Some ''sub_1'']"
    by (simp add: rows pr)
  then obtain r4 where r4: "?r4 = [r4]" "stripe_subscription_id r4 = Some ''sub_1''"
    using singleton_of_map by blast
  with b4 have w4: "map status ?r4 = [Past_due]" by simp
  from c4 have w4': "map tier ?r4 = [Premium]" by (simp add: rows pr)

  \<comment> \<open>a date out of range\<close>
  let ?ev5 = "older_updated_event\<lparr>payload := Customer_subscription_updated
          (sub_1\<lparr>sub_canceled_at := Some 8640000000001\<rparr>)\<rparr>"
  have p5: "payload ?ev5 = Customer_subscription_updated (sub_1\<lparr>sub_canceled_at := Some 8640000000001\<rparr>)"
    by simp
  from events_applied_in_arrival_order [of ?e2 ?ev5 "db_of [premium_row]"] p5 dates
  have w5: "process_event ?e2 ?ev5 (db_of [premium_row]) = db_of [premium_row]"
    by blast

  have t: "event_created older_updated_event * 1000 < updated_at (premium_row\<lparr>updated_at := 1700000300000\<rparr>)"
    "event_created created_event < event_created deleted_event"
    "event_created created_event * 1000 < updated_at deleted_row"
    by (simp_all add: older_updated_event_def created_event_def deleted_event_def dr)
  from t w1 w1' w2 w3 w4 w4' w5 show ?thesis by blast
qed

text \<open>
  Claim C2. The code at a redelivery: the deletion event of \<open>sub_1\<close> is applied to the
  premium record at millisecond 1700000600000 and, delivered again, at 1700000900000.
  The second application is not a no-op: it moves \<open>canceled_at\<close> and \<open>updated_at\<close> to
  the time of the redelivery.
\<close>

theorem redelivered_event_is_applied_again:
  "map canceled_at
     (user_subscriptions (process_event (env_at 1700000600000) deleted_event (db_of [premium_row])))
     = [Some 1700000600000] \<and>
   map canceled_at
     (user_subscriptions
        (process_event (env_at 1700000900000) deleted_event
           (process_event (env_at 1700000600000) deleted_event (db_of [premium_row]))))
     = [Some 1700000900000] \<and>
   map updated_at
     (user_subscriptions
        (process_event (env_at 1700000900000) deleted_event
           (process_event (env_at 1700000600000) deleted_event (db_of [premium_row]))))
     = [1700000900000] \<and>
   process_event (env_at 1700000900000) deleted_event
       (process_event (env_at 1700000600000) deleted_event (db_of [premium_row]))
     \<noteq> process_event (env_at 1700000600000) deleted_event (db_of [premium_row])"
  by (simp add: process_event_def deleted_event_def handleSubscriptionDeleted_def
        update_where_def env_at_def db_of_def premium_row_def free_row_def sub_1_def)

text \<open>
  What a redelivery leaves alone: when no database call fails, applying an event a second
  time gives the subscription rows that a single application at the later clock reading
  gives. Only the fields written from the clock can differ from the first application.
\<close>

lemma update_where_twice:
  assumes "\<And>r. p (f r) = p r" and "\<And>r. g (f r) = g r"
  shows "update_where p g (update_where p f rows) = update_where p g rows"
  using assms by (induction rows) (auto simp: update_where_def)

lemma filter_update_where:
  assumes "\<And>r. p (f r) = p r"
  shows "filter p (update_where p f rows) = map f (filter p rows)"
  using assms by (induction rows) (auto simp: update_where_def)

lemma reapplied_event_subscriptions:
  assumes "select_fault e1 = None" "update_fault e1 = None"
    and "select_fault e2 = None" "update_fault e2 = None"
  shows "user_subscriptions (process_event e2 ev (process_event e1 ev db)) =
         user_subscriptions (process_event e2 ev db)"
proof (cases "payload ev")
  case (Customer_subscription_created s)
  let ?p = "\<lambda>r. stripe_customer_id r = Some (expandable_id (sub_customer s))"
  show ?thesis
  proof (cases "\<exists>r. filter ?p (user_subscriptions db) = [r]")
    case True
    then obtain r where r: "filter ?p (user_subscriptions db) = [r]" by blast
    have "filter ?p (update_where ?p f (user_subscriptions db)) = [f r]"
      if "\<And>x. ?p (f x) = ?p x" for f
      using filter_update_where [of ?p f "user_subscriptions db"] that r by simp
    with r Customer_subscription_created assms show ?thesis
      by (auto simp: process_event_def handleSubscriptionCreated_def select_single_def Let_def
            update_where_twice split: sum.splits option.splits db_fault.splits)
  next
    case False
    then have "select_single None ?p (user_subscriptions db) = Error ''PGRST116''"
      by (auto simp: select_single_def split: list.splits)
    with Customer_subscription_created assms show ?thesis
      by (simp add: process_event_def handleSubscriptionCreated_def Let_def)
  qed
next
  case (Customer_subscription_updated s)
  with assms show ?thesis
    by (auto simp: process_event_def handleSubscriptionUpdated_def Let_def update_where_twice
          split: sum.splits)
next
  case (Customer_subscription_deleted s)
  with assms show ?thesis
    by (simp add: process_event_def handleSubscriptionDeleted_def update_where_twice)
next
  case (Invoice_payment_failed i)
  with assms show ?thesis
    by (cases "invoice_subscription i")
       (auto simp: process_event_def handlePaymentFailed_def Let_def update_where_twice)
next
  case (Unhandled t)
  then show ?thesis by (simp add: process_event_def)
qed

text \<open>
  Claim C3. The code at a deletion: the premium record of \<open>u1\<close> satisfies the invariant;
  after the deletion event of its subscription the record is free and still carries the
  subscription reference \<open>sub_1\<close>, so the invariant no longer holds.
\<close>

theorem deleted_event_keeps_subscription_reference:
  "list_all record_invariant (user_subscriptions (db_of [premium_row])) \<and>
   map tier
     (user_subscriptions (process_event (env_at 1700000600000) deleted_event (db_of [premium_row])))
     = [Free] \<and>
   map stripe_subscription_id
     (user_subscriptions (process_event (env_at 1700000600000) deleted_event (db_of [premium_row])))
     = [Some ''sub_1''] \<and>
   \<not> list_all record_invariant
        (user_subscriptions (process_event (env_at 1700000600000) deleted_event (db_of [premium_row])))"
  by (simp add: process_event_def deleted_event_def handleSubscriptionDeleted_def
        update_where_def env_at_def db_of_def premium_row_def free_row_def sub_1_def
        record_invariant_def)

text \<open>
  The other handlers and the invariant: creation and a failed payment keep it; so does
  an update that is not an immediate cancellation. (An immediate cancellation sets the
  tier to free like the deletion does, and keeps the reference.)
\<close>

lemma update_where_invariant:
  "list_all record_invariant rows \<Longrightarrow> (\<And>r. record_invariant r \<Longrightarrow> p r \<Longrightarrow> record_invariant (f r)) \<Longrightarrow>
   list_all record_invariant (update_where p f rows)"
  by (induction rows) (auto simp: update_where_def)

lemma other_handlers_keep_invariant:
  assumes "list_all record_invariant (user_subscriptions db)"
  shows "list_all record_invariant (user_subscriptions (snd (handleSubscriptionCreated e s db)))"
    and "list_all record_invariant (user_subscriptions (snd (handlePaymentFailed e i db)))"
    and "\<not> (sub_status s = Canceled \<and> \<not> sub_cancel_at_period_end s) \<Longrightarrow>
         list_all record_invariant (user_subscriptions (snd (handleSubscriptionUpdated e s db)))"
proof -
  show "list_all record_invariant (user_subscriptions (snd (handleSubscriptionCreated e s db)))"
    using assms
    by (auto simp: handleSubscriptionCreated_def Let_def record_invariant_def
          intro!: update_where_invariant
          split: query_result.splits sum.splits option.splits db_fault.splits)
  show "list_all record_invariant (user_subscriptions (snd (handlePaymentFailed e i db)))"
    using assms
    by (auto simp: handlePaymentFailed_def Let_def record_invariant_def
          intro!: update_where_invariant split: option.splits)
  show "list_all record_invariant (user_subscriptions (snd (handleSubscriptionUpdated e s db)))"
    if "\<not> (sub_status s = Canceled \<and> \<not> sub_cancel_at_period_end s)"
    using assms that
    by (auto simp: handleSubscriptionUpdated_def Let_def record_invariant_def
          intro!: update_where_invariant split: sum.splits option.splits)
qed

section \<open>Properties of the quota ledger\<close>








section \<open>Properties of the scoring engine\<close>

lemma round2_bounds:
  assumes "0 \<le> x" and "x \<le> 100"
  shows "0 \<le> round2 x \<and> round2 x \<le> 100"
proof -
  from assms have lo: "0 \<le> x * 100" and hi: "x * 100 \<le> 10000"
    by simp_all
  from lo have "round (0::rat) \<le> round (x * 100)" by (rule round_mono)
  moreover from hi have "round (x * 100) \<le> round (10000::rat)" by (rule round_mono)
  ultimately have "0 \<le> round (x * 100)" and "round (x * 100) \<le> 10000"
    by simp_all
  then have "(0::rat) \<le> of_int (round (x * 100))" and "of_int (round (x * 100)) \<le> (10000::rat)"
    by simp_all
  then show ?thesis
    by (simp add: round2_def)
qed

lemma percentage_bounds:
  assumes "c \<le> t" and "percentage c t = Some v"
  shows "0 \<le> v \<and> v \<le> 100"
proof -
  from assms(2) have t: "t \<noteq> 0" and v: "v = round2 (rat_of_nat c / rat_of_nat t * 100)"
    by (auto simp: percentage_def split: if_splits)
  from t have tp: "0 < rat_of_nat t" by simp
  from assms(1) have "rat_of_nat c \<le> rat_of_nat t" by simp
  with tp have "rat_of_nat c / rat_of_nat t * 100 \<le> 100"
    by (simp add: pos_divide_le_eq)
  moreover have "0 \<le> rat_of_nat c / rat_of_nat t * 100" by simp
  ultimately show ?thesis
    unfolding v by (intro round2_bounds)
qed

lemma score_of_bounds:
  assumes "score_of sel items answers = Some v"
  shows "0 \<le> v \<and> v \<le> 100"
proof -
  have "length (filter (is_correct answers) (filter sel items)) \<le> length (filter sel items)"
    by (rule length_filter_le)
  from this assms [unfolded score_of_def] show ?thesis
    by (rule percentage_bounds)
qed

text \<open>
  Claim C9. For any item set and any submitted answers, every score the engine produces
  (per section, per category, the exam's overall average, the practice aggregate) lies
  between 0 and 100 inclusive. The per-section percentage is the number of correct items
  of the section divided by the number of items of the section, times 100, rounded to two
  decimals; a section with no item has no score.
\<close>

theorem scores_within_bounds:
  "(\<forall>sec v. section_score items answers sec = Some v \<longrightarrow> 0 \<le> v \<and> v \<le> 100) \<and>
   (\<forall>cat v. category_score items answers cat = Some v \<longrightarrow> 0 \<le> v \<and> v \<le> 100) \<and>
   (\<forall>v. exam_overall_average items answers = Some v \<longrightarrow> 0 \<le> v \<and> v \<le> 100) \<and>
   (\<forall>v. practice_overall_score items answers = Some v \<longrightarrow> 0 \<le> v \<and> v \<le> 100) \<and>
   (\<forall>sec. section_score items answers sec =
      (let its = filter (\<lambda>i. item_section i = sec) items;
           n_correct = length (filter (is_correct answers) its)
       in if its = [] then None
          else Some (rat_of_int (round (rat_of_nat n_correct / rat_of_nat (length its) * 100 * 100))
                     / 100)))"
proof -
  have sec: "0 \<le> v \<and> v \<le> 100" if "section_score items answers sec = Some v" for sec v
    using that unfolding section_score_def by (rule score_of_bounds)
  have cat: "0 \<le> v \<and> v \<le> 100" if "category_score items answers c = Some v" for c v
    using that unfolding category_score_def by (rule score_of_bounds)
  have practice: "0 \<le> v \<and> v \<le> 100" if "practice_overall_score items answers = Some v" for v
    using that unfolding practice_overall_score_def by (rule score_of_bounds)
  have exam: "0 \<le> v \<and> v \<le> 100" if "exam_overall_average items answers = Some v" for v
  proof (cases "section_score items answers Verbal")
    case None
    with that show ?thesis by (simp add: exam_overall_average_def)
  next
    case a: (Some a)
    show ?thesis
    proof (cases "section_score items answers Quantitative")
      case None
      with that a show ?thesis by (simp add: exam_overall_average_def)
    next
      case b: (Some b)
      from that a b have v: "v = (a + b) / 2"
        by (simp add: exam_overall_average_def)
      from sec [OF a] sec [OF b] show ?thesis
        unfolding v by simp
    qed
  qed
  have formula: "section_score items answers sec =
      (let its = filter (\<lambda>i. item_section i = sec) items;
           n_correct = length (filter (is_correct answers) its)
       in if its = [] then None
          else Some (rat_of_int (round (rat_of_nat n_correct / rat_of_nat (length its) * 100 * 100))
                     / 100))" for sec
    by (simp add: section_score_def score_of_def percentage_def round2_def Let_def)
  from sec cat practice exam formula show ?thesis
    by blast
qed

theorem scores_within_bounds_witness:
  "section_score example_items example_answers Verbal = Some 100 \<and>
   section_score example_items example_answers Quantitative = Some (3333 / 100) \<and>
   category_score example_items example_answers ''algebra'' = Some 50 \<and>
   category_score example_items example_answers ''geometry'' = Some 0 \<and>
   exam_overall_average example_items example_answers = Some (13333 / 200) \<and>
   practice_overall_score example_items example_answers = Some 50 \<and>
   (0::rat) \<le> 3333 / 100 \<and> (3333 / 100 ::rat) \<le> 100 \<and>
   (0::rat) \<le> 13333 / 200 \<and> (13333 / 200 ::rat) \<le> 100"
proof -
  have a: "section_score example_items example_answers Verbal = Some 100"
    by code_simp
  have b: "section_score example_items example_answers Quantitative = Some (3333 / 100)"
    by code_simp
  have c: "category_score example_items example_answers ''algebra'' = Some 50"
    by code_simp
  have d: "category_score example_items example_answers ''geometry'' = Some 0"
    by code_simp
  have e: "exam_overall_average example_items example_answers = Some (13333 / 200)"
    by code_simp
  have f: "practice_overall_score example_items example_answers = Some 50"
    by code_simp
  from scores_within_bounds [of example_items example_answers] b e
  have "(0::rat) \<le> 3333 / 100 \<and> (3333 / 100 ::rat) \<le> 100"
    and "(0::rat) \<le> 13333 / 200 \<and> (13333 / 200 ::rat) \<le> 100"
    by blast+
  with a b c d e f show ?thesis by blast
qed

end
